theory Spec2Isabelle
  imports Complex_Main
begin

section \<open>Data model\<close>

text \<open>
  The documents of the store, as the mongoose schemas declare them. An ObjectId is a
  natural number, a Date is its time value (milliseconds since the epoch, an integer)
  and a schema Number is a rational: arithmetic is exact, the rounding of IEEE doubles
  is outside the model. Only the fields that the modelled operations read or write
  are kept, and a request field carries a value of its schema type: a quantity is a
  number, an id is an ObjectId.
\<close>

type_synonym object_id = nat
type_synonym date = int
type_synonym number = rat

datatype role = RoleAdmin | RoleWorker

record user =
  user_id :: object_id
  user_role :: role
  user_isActive :: bool
  workerDetails_completedTasks :: int

datatype unit_of_measure = Kg | Liter | Piece | Bag | Box | Meter

text \<open>\<^verbatim>\<open>models/Inventory.js\<close>: \<open>quantity.current\<close> carries the validator \<open>min: 0\<close>.\<close>

record inventory =
  inv_unit :: unit_of_measure
  quantity_current :: number
  quantity_minimum :: number
  quantity_maximum :: number
  lastRestocked :: "date option"
  lowStockAlert_enabled :: bool
  lowStockAlert_lastAlertSent :: "date option"

datatype transaction_type = Withdrawal | Return | Restock | Adjustment

text \<open>\<^verbatim>\<open>models/InventoryTransaction.js\<close>: \<open>notes\<close> carries \<open>maxlength: 500\<close>.\<close>

record inventory_transaction =
  tx_inventory :: object_id
  tx_task :: "object_id option"
  tx_worker :: object_id
  tx_type :: transaction_type
  tx_quantity :: number
  tx_unit :: unit_of_measure
  previousQuantity :: number
  newQuantity :: number
  tx_notes :: "string option"
  confirmedBy :: object_id
  confirmedAt :: date

text \<open>
  What the notification service is asked to deliver. Each \<open>notify...\<close> function of
  \<^verbatim>\<open>services/notificationService.js\<close> catches every error of its channels and returns a
  boolean, so a call never fails its caller; the model records the call and the clock
  reading of the request that made it.
\<close>

datatype notification_event =
    LowStockAlert object_id object_id date
  | TaskAssignment object_id object_id date
  | TaskCompletion object_id object_id date

datatype task_status = Pending | Assigned | InProgress | Completed | Review | Rejected

record material =
  material_item :: "object_id option"
  material_quantity :: number

record location_stamp =
  latitude :: "number option"
  longitude :: "number option"
  timestamp :: date

text \<open>\<^verbatim>\<open>models/Task.js\<close>: \<open>actualDuration\<close> defaults to 0, \<open>worker\<close> to null.\<close>

record task =
  task_client :: object_id
  task_site :: "object_id option"
  task_worker :: "object_id option"
  task_status :: task_status
  materials :: "material list"
  actualDuration :: number
  cost_labor :: number
  cost_materials :: number
  cost_total :: number
  startedAt :: "date option"
  completedAt :: "date option"
  startLocation :: "location_stamp option"
  endLocation :: "location_stamp option"

record client =
  client_completedTasks :: int

record site =
  site_completedTasks :: int
  site_lastVisit :: "date option"

text \<open>
  The store. The user collection is a list in natural order, because
  \<open>User.findOne\<close> returns the first match; the other collections are maps from ids.
\<close>

record db =
  inventories :: "object_id \<rightharpoonup> inventory"
  inventoryTransactions :: "inventory_transaction list"
  tasks :: "object_id \<rightharpoonup> task"
  users :: "user list"
  clients :: "object_id \<rightharpoonup> client"
  sites :: "object_id \<rightharpoonup> site"
  outbox :: "notification_event list"

text \<open>Errors thrown inside a handler, and the failure responses a handler sends.\<close>

datatype exn = Error string | ValidationError string | TypeError string

datatype http_error = HttpError nat string

section \<open>Stock ledger\<close>

text \<open>
  \<open>document.save()\<close> of an Inventory document: \<open>quantity.current\<close> is a required
  path, so every save validates it; its validator \<open>min: 0\<close> rejects a negative balance,
  and nothing is written then.
\<close>

definition save_inventory :: "object_id \<Rightarrow> inventory \<Rightarrow> db \<Rightarrow> (exn + inventory) \<times> db" where
  "save_inventory i item s =
     (if quantity_current item < 0 then (Inl (ValidationError ''quantity.current''), s)
      else (Inr item, s\<lparr>inventories := (inventories s)(i \<mapsto> item)\<rparr>))"

text \<open>\<open>inventorySchema.methods.deduct\<close>.\<close>

definition deduct :: "number \<Rightarrow> object_id \<Rightarrow> inventory \<Rightarrow> db \<Rightarrow> (exn + inventory) \<times> db" where
  "deduct amount i item s =
     (if quantity_current item < amount then (Inl (Error ''Insufficient stock''), s)
      else save_inventory i (item\<lparr>quantity_current := quantity_current item - amount\<rparr>) s)"

text \<open>\<open>inventorySchema.methods.restock\<close>.\<close>

definition restock :: "number \<Rightarrow> date \<Rightarrow> object_id \<Rightarrow> inventory \<Rightarrow> db \<Rightarrow> (exn + inventory) \<times> db" where
  "restock amount now i item s =
     save_inventory i
       (item\<lparr>quantity_current := quantity_current item + amount, lastRestocked := Some now\<rparr>) s"

text \<open>\<open>InventoryTransaction.create\<close>: validation, then an append to the collection.\<close>

definition notes_valid :: "string option \<Rightarrow> bool" where
  "notes_valid n = (case n of None \<Rightarrow> True | Some t \<Rightarrow> length t \<le> 500)"

definition InventoryTransaction_create :: "inventory_transaction \<Rightarrow> db \<Rightarrow> (exn + unit) \<times> db" where
  "InventoryTransaction_create tx s =
     (if notes_valid (tx_notes tx)
      then (Inr (), s\<lparr>inventoryTransactions := inventoryTransactions s @ [tx]\<rparr>)
      else (Inl (ValidationError ''notes''), s))"

text \<open>\<open>User.findOne({ role: 'admin', isActive: true })\<close>.\<close>

definition findOne_admin :: "db \<Rightarrow> user option" where
  "findOne_admin s = find (\<lambda>u. user_role u = RoleAdmin \<and> user_isActive u) (users s)"

text \<open>\<open>notifyLowStock(admin, item)\<close>, seen from its caller.\<close>

definition notifyLowStock :: "user \<Rightarrow> object_id \<Rightarrow> date \<Rightarrow> db \<Rightarrow> db" where
  "notifyLowStock adminUser i now s = s\<lparr>outbox := outbox s @ [LowStockAlert (user_id adminUser) i now]\<rparr>"

definition DAY_MS :: int where
  "DAY_MS = 24 * 60 * 60 * 1000"

text \<open>The low-stock block that ends \<open>withdrawInventory\<close>.\<close>

definition lowStockCheck :: "object_id \<Rightarrow> inventory \<Rightarrow> date \<Rightarrow> db \<Rightarrow> (exn + inventory) \<times> db" where
  "lowStockCheck i item now s =
     (if quantity_current item \<le> quantity_minimum item \<and> lowStockAlert_enabled item then
        (if (case lowStockAlert_lastAlertSent item of None \<Rightarrow> True | Some lastAlert \<Rightarrow> now - lastAlert > DAY_MS)
         then (case findOne_admin s of
                 None \<Rightarrow> (Inr item, s)
               | Some adminUser \<Rightarrow>
                   save_inventory i (item\<lparr>lowStockAlert_lastAlertSent := Some now\<rparr>)
                     (notifyLowStock adminUser i now s))
         else (Inr item, s))
      else (Inr item, s))"

record withdraw_request =
  w_params_id :: object_id
  w_quantity :: number
  w_taskId :: "object_id option"
  w_notes :: "string option"
  w_user :: object_id

record restock_request =
  r_params_id :: object_id
  r_quantity :: number
  r_notes :: "string option"
  r_user :: object_id

text \<open>
  \<open>withdrawInventory\<close> (\<^verbatim>\<open>controllers/inventoryController.js\<close>). The handler's
  \<open>catch\<close> turns every thrown error into the 500 response; what was written before the
  throw stays written. \<open>now\<close> is the clock reading of the request.
\<close>

definition withdrawInventory :: "withdraw_request \<Rightarrow> date \<Rightarrow> db \<Rightarrow> (http_error + inventory) \<times> db" where
  "withdrawInventory req now s =
     (case inventories s (w_params_id req) of
        None \<Rightarrow> (Inl (HttpError 404 ''Inventory item not found''), s)
      | Some item \<Rightarrow>
          if quantity_current item < w_quantity req
          then (Inl (HttpError 400 ''Insufficient stock''), s)
          else
            (case deduct (w_quantity req) (w_params_id req) item s of
               (Inl e, s1) \<Rightarrow> (Inl (HttpError 500 ''Failed to withdraw inventory''), s1)
             | (Inr item1, s1) \<Rightarrow>
                 (case InventoryTransaction_create
                         \<lparr>tx_inventory = w_params_id req, tx_task = w_taskId req,
                          tx_worker = w_user req, tx_type = Withdrawal,
                          tx_quantity = w_quantity req, tx_unit = inv_unit item1,
                          previousQuantity = quantity_current item,
                          newQuantity = quantity_current item1,
                          tx_notes = w_notes req, confirmedBy = w_user req,
                          confirmedAt = now\<rparr> s1 of
                    (Inl e, s2) \<Rightarrow> (Inl (HttpError 500 ''Failed to withdraw inventory''), s2)
                  | (Inr u, s2) \<Rightarrow>
                      (case lowStockCheck (w_params_id req) item1 now s2 of
                         (Inl e, s3) \<Rightarrow> (Inl (HttpError 500 ''Failed to withdraw inventory''), s3)
                       | (Inr item3, s3) \<Rightarrow> (Inr item3, s3)))))"

text \<open>\<open>restockInventory\<close>.\<close>

definition restockInventory :: "restock_request \<Rightarrow> date \<Rightarrow> db \<Rightarrow> (http_error + inventory) \<times> db" where
  "restockInventory req now s =
     (case inventories s (r_params_id req) of
        None \<Rightarrow> (Inl (HttpError 404 ''Inventory item not found''), s)
      | Some item \<Rightarrow>
          (case restock (r_quantity req) now (r_params_id req) item s of
             (Inl e, s1) \<Rightarrow> (Inl (HttpError 500 ''Failed to restock inventory''), s1)
           | (Inr item1, s1) \<Rightarrow>
               (case InventoryTransaction_create
                       \<lparr>tx_inventory = r_params_id req, tx_task = None,
                        tx_worker = r_user req, tx_type = Restock,
                        tx_quantity = r_quantity req, tx_unit = inv_unit item1,
                        previousQuantity = quantity_current item,
                        newQuantity = quantity_current item1,
                        tx_notes = r_notes req, confirmedBy = r_user req,
                        confirmedAt = now\<rparr> s1 of
                  (Inl e, s2) \<Rightarrow> (Inl (HttpError 500 ''Failed to restock inventory''), s2)
                | (Inr u, s2) \<Rightarrow> (Inr item1, s2))))"

text \<open>
  Runs of ledger requests, for the properties that speak of sequences of operations:
  \<open>run_successful\<close> is defined while every request is answered with success,
  \<open>run_all\<close> carries the store through the requests whatever their answers.
\<close>

datatype ledger_op = WithdrawOp withdraw_request date | RestockOp restock_request date

fun ledger_step :: "ledger_op \<Rightarrow> db \<Rightarrow> (http_error + inventory) \<times> db" where
  "ledger_step (WithdrawOp req now) s = withdrawInventory req now s"
| "ledger_step (RestockOp req now) s = restockInventory req now s"


fun run_all :: "ledger_op list \<Rightarrow> db \<Rightarrow> db" where
  "run_all [] s = s"
| "run_all (x # xs) s = run_all xs (snd (ledger_step x s))"



text \<open>The low-stock alerts for item \<open>i\<close> whose time lies in the window \<open>[a, a + 24h]\<close>.\<close>

fun alert_in_window :: "object_id \<Rightarrow> date \<Rightarrow> notification_event \<Rightarrow> bool" where
  "alert_in_window i a (LowStockAlert u j t) = (j = i \<and> a \<le> t \<and> t \<le> a + DAY_MS)"
| "alert_in_window i a (TaskAssignment u j t) = False"
| "alert_in_window i a (TaskCompletion u j t) = False"

definition alerts_in_window :: "object_id \<Rightarrow> date \<Rightarrow> db \<Rightarrow> notification_event list" where
  "alerts_in_window i a s = filter (alert_in_window i a) (outbox s)"

fun is_alert_for :: "object_id \<Rightarrow> notification_event \<Rightarrow> bool" where
  "is_alert_for i (LowStockAlert u j t) = (j = i)"
| "is_alert_for i (TaskAssignment u j t) = False"
| "is_alert_for i (TaskCompletion u j t) = False"

text \<open>
  For the throttling argument: the times of the alerts for item \<open>i\<close> in the order they
  were sent, the property that consecutive times lie more than 24 hours apart, and the
  \<open>lastAlertSent\<close> the store holds for the item.
\<close>

fun alert_time :: "notification_event \<Rightarrow> date" where
  "alert_time (LowStockAlert u j t) = t"
| "alert_time (TaskAssignment u j t) = t"
| "alert_time (TaskCompletion u j t) = t"

definition alert_times :: "object_id \<Rightarrow> notification_event list \<Rightarrow> date list" where
  "alert_times i es = map alert_time (filter (is_alert_for i) es)"

fun spaced :: "date list \<Rightarrow> bool" where
  "spaced [] = True"
| "spaced [t] = True"
| "spaced (t # u # ts) = (u - t > DAY_MS \<and> spaced (u # ts))"

definition last_alert :: "object_id \<Rightarrow> db \<Rightarrow> date option" where
  "last_alert i s =
     (case inventories s i of None \<Rightarrow> None | Some item \<Rightarrow> lowStockAlert_lastAlertSent item)"

definition alert_inv :: "object_id \<Rightarrow> db \<Rightarrow> bool" where
  "alert_inv i s =
     (spaced (alert_times i (outbox s)) \<and>
      (alert_times i (outbox s) = [] \<or>
       last_alert i s = Some (last (alert_times i (outbox s)))))"

section \<open>Task lifecycle\<close>

text \<open>\<open>Math.round\<close>: the nearest integer, a half rounded towards \<open>+\<infinity>\<close>.\<close>

definition Math_round :: "number \<Rightarrow> int" where
  "Math_round x = \<lfloor>x + 1 / 2\<rfloor>"

text \<open>
  \<open>taskSchema.pre('save')\<close> (\<^verbatim>\<open>models/Task.js\<close>). A Date object is truthy, so
  \<open>this.startedAt && this.completedAt\<close> holds exactly when both are set.
\<close>

definition pre_save :: "task \<Rightarrow> task" where
  "pre_save t =
     (let t1 =
        (case startedAt t of
           None \<Rightarrow> t
         | Some st \<Rightarrow>
             (case completedAt t of
                None \<Rightarrow> t
              | Some ct \<Rightarrow>
                  (let duration = of_int (ct - st) / (1000 * 60 * 60)
                   in t\<lparr>actualDuration := of_int (Math_round (duration * 100)) / 100\<rparr>)))
      in t1\<lparr>cost_total := cost_labor t1 + cost_materials t1\<rparr>)"

text \<open>\<open>task.save()\<close>: the hook, then the write.\<close>

definition save_task :: "object_id \<Rightarrow> task \<Rightarrow> db \<Rightarrow> task \<times> db" where
  "save_task i t s = (pre_save t, s\<lparr>tasks := (tasks s)(i \<mapsto> pre_save t)\<rparr>)"

definition findById_user :: "object_id \<Rightarrow> db \<Rightarrow> user option" where
  "findById_user i s = find (\<lambda>u. user_id u = i) (users s)"

definition notifyTaskAssignment :: "user \<Rightarrow> object_id \<Rightarrow> date \<Rightarrow> db \<Rightarrow> db" where
  "notifyTaskAssignment w i now s = s\<lparr>outbox := outbox s @ [TaskAssignment (user_id w) i now]\<rparr>"

text \<open>
  \<open>notifyTaskCompletion(client, task, worker)\<close>: exported by the notification service
  and imported by the task controller.
\<close>

definition notifyTaskCompletion :: "object_id \<Rightarrow> object_id \<Rightarrow> date \<Rightarrow> db \<Rightarrow> db" where
  "notifyTaskCompletion c i now s = s\<lparr>outbox := outbox s @ [TaskCompletion c i now]\<rparr>"

record assign_request =
  a_params_id :: object_id
  a_workerId :: "object_id option"

text \<open>\<open>assignTask\<close> (\<^verbatim>\<open>controllers/taskController.js\<close>).\<close>

definition assignTask :: "assign_request \<Rightarrow> date \<Rightarrow> db \<Rightarrow> (http_error + task) \<times> db" where
  "assignTask req now s =
     (case tasks s (a_params_id req) of
        None \<Rightarrow> (Inl (HttpError 404 ''Task not found''), s)
      | Some t \<Rightarrow>
          (case (case a_workerId req of None \<Rightarrow> None | Some w \<Rightarrow> findById_user w s) of
             None \<Rightarrow> (Inl (HttpError 404 ''Worker not found''), s)
           | Some w \<Rightarrow>
               if user_role w = RoleWorker then
                 (case save_task (a_params_id req)
                         (t\<lparr>task_worker := a_workerId req, task_status := Assigned\<rparr>) s of
                    (t1, s1) \<Rightarrow> (Inr t1, notifyTaskAssignment w (a_params_id req) now s1))
               else (Inl (HttpError 404 ''Worker not found''), s)))"

record complete_request =
  c_params_id :: object_id
  c_latitude :: "number option"
  c_longitude :: "number option"
  c_user :: user

text \<open>
  \<open>completeTask\<close>. On a task without worker, \<open>task.worker.toString()\<close> throws a
  TypeError, which the handler's \<open>catch\<close> answers with 500.
\<close>

definition completeTask :: "complete_request \<Rightarrow> date \<Rightarrow> db \<Rightarrow> (http_error + task) \<times> db" where
  "completeTask req now s =
     (case tasks s (c_params_id req) of
        None \<Rightarrow> (Inl (HttpError 404 ''Task not found''), s)
      | Some t \<Rightarrow>
          (case task_worker t of
             None \<Rightarrow> (Inl (HttpError 500 ''Server error''), s)
           | Some w \<Rightarrow>
               if w = user_id (c_user req) then
                 (case save_task (c_params_id req)
                         (t\<lparr>task_status := Completed, completedAt := Some now,
                            endLocation := Some \<lparr>latitude = c_latitude req,
                              longitude = c_longitude req, timestamp = now\<rparr>\<rparr>) s of
                    (t1, s1) \<Rightarrow> (Inr t1, s1))
               else (Inl (HttpError 403 ''Not authorized''), s)))"

text \<open>
  The loop of \<open>updateTask\<close> over \<open>task.materials\<close>: a line without item, or whose
  item is not in the store, is skipped; a throw of \<open>deduct\<close> leaves the loop with the
  earlier lines already deducted.
\<close>

fun deduct_materials :: "material list \<Rightarrow> db \<Rightarrow> (exn + unit) \<times> db" where
  "deduct_materials [] s = (Inr (), s)"
| "deduct_materials (m # ms) s =
     (case material_item m of
        None \<Rightarrow> deduct_materials ms s
      | Some i \<Rightarrow>
          (case inventories s i of
             None \<Rightarrow> deduct_materials ms s
           | Some inventoryItem \<Rightarrow>
               (case deduct (material_quantity m) i inventoryItem s of
                  (Inl e, s1) \<Rightarrow> (Inl e, s1)
                | (Inr item1, s1) \<Rightarrow> deduct_materials ms s1)))"


text \<open>\<open>findByIdAndUpdate\<close> with \<open>$inc\<close>: nothing happens when the document is absent.\<close>

definition inc_client_completedTasks :: "object_id \<Rightarrow> db \<Rightarrow> db" where
  "inc_client_completedTasks c s =
     (case clients s c of
        None \<Rightarrow> s
      | Some cl \<Rightarrow>
          s\<lparr>clients := (clients s)(c \<mapsto> cl\<lparr>client_completedTasks := client_completedTasks cl + 1\<rparr>)\<rparr>)"

fun update_user :: "object_id \<Rightarrow> (user \<Rightarrow> user) \<Rightarrow> user list \<Rightarrow> user list" where
  "update_user i f [] = []"
| "update_user i f (u # us) = (if user_id u = i then f u # us else u # update_user i f us)"

definition inc_worker_completedTasks :: "object_id \<Rightarrow> db \<Rightarrow> db" where
  "inc_worker_completedTasks w s =
     s\<lparr>users := update_user w
         (\<lambda>u. u\<lparr>workerDetails_completedTasks := workerDetails_completedTasks u + 1\<rparr>) (users s)\<rparr>"

definition inc_site_completedTasks :: "object_id \<Rightarrow> date \<Rightarrow> db \<Rightarrow> db" where
  "inc_site_completedTasks i now s =
     (case sites s i of
        None \<Rightarrow> s
      | Some st \<Rightarrow>
          s\<lparr>sites := (sites s)(i \<mapsto> st\<lparr>site_completedTasks := site_completedTasks st + 1,
                                         site_lastVisit := Some now\<rparr>)\<rparr>)"

text \<open>
  The part of \<open>req.body\<close> that \<open>updateTask\<close> reads or writes; a field is absent or
  carries a value.
\<close>

record update_body =
  body_worker :: "object_id option"
  body_status :: "task_status option"
  body_completedAt :: "date option"

record update_request =
  u_params_id :: object_id
  u_body :: update_body
  u_user :: user

definition apply_body :: "update_body \<Rightarrow> task \<Rightarrow> task" where
  "apply_body b t =
     t\<lparr>task_worker := (case body_worker b of None \<Rightarrow> task_worker t | Some w \<Rightarrow> Some w),
       task_status := (case body_status b of None \<Rightarrow> task_status t | Some st \<Rightarrow> st),
       completedAt := (case body_completedAt b of None \<Rightarrow> completedAt t | Some d \<Rightarrow> Some d)\<rparr>"

definition assigning :: "update_body \<Rightarrow> task \<Rightarrow> bool" where
  "assigning b t = (body_worker b \<noteq> None \<and> task_worker t = None)"

text \<open>The block "If marking as completed" of \<open>updateTask\<close>.\<close>

definition mark_completed :: "update_body \<Rightarrow> task \<Rightarrow> date \<Rightarrow> db \<Rightarrow> update_body \<times> db" where
  "mark_completed b t now s =
     (if body_status b = Some Completed \<and> task_status t \<noteq> Completed then
        (b\<lparr>body_completedAt := Some now\<rparr>,
         (let s1 = inc_client_completedTasks (task_client t) s;
              s2 = (case task_worker t of None \<Rightarrow> s1 | Some w \<Rightarrow> inc_worker_completedTasks w s1)
          in (case task_site t of None \<Rightarrow> s2 | Some i \<Rightarrow> inc_site_completedTasks i now s2)))
      else (b, s))"

text \<open>\<open>updateTask\<close>. The final \<open>Task.findByIdAndUpdate\<close> runs no save hook.\<close>

definition updateTask :: "update_request \<Rightarrow> date \<Rightarrow> db \<Rightarrow> (http_error + task) \<times> db" where
  "updateTask req now s =
     (case tasks s (u_params_id req) of
        None \<Rightarrow> (Inl (HttpError 404 ''Task not found''), s)
      | Some t \<Rightarrow>
          if user_role (u_user req) = RoleWorker \<and> task_worker t \<noteq> Some (user_id (u_user req))
          then (Inl (HttpError 403 ''Not authorized to update this task''), s)
          else
            (case (if assigning (u_body req) t then deduct_materials (materials t) s
                   else (Inr (), s)) of
               (Inl e, s1) \<Rightarrow> (Inl (HttpError 500 ''Server error''), s1)
             | (Inr u, s1) \<Rightarrow>
                 (case mark_completed
                         (if assigning (u_body req) t
                          then (u_body req)\<lparr>body_status := Some Assigned\<rparr> else u_body req)
                         t now s1 of
                    (b2, s2) \<Rightarrow>
                      (Inr (apply_body b2 t),
                       s2\<lparr>tasks := (tasks s2)(u_params_id req \<mapsto> apply_body b2 t)\<rparr>))))"

section \<open>Concrete stores and requests\<close>

definition fertilizer :: inventory where
  "fertilizer = \<lparr>inv_unit = Kg, quantity_current = 30, quantity_minimum = 10,
     quantity_maximum = 1000, lastRestocked = None, lowStockAlert_enabled = True,
     lowStockAlert_lastAlertSent = None\<rparr>"

definition admin1 :: user where
  "admin1 = \<lparr>user_id = 1, user_role = RoleAdmin, user_isActive = True,
     workerDetails_completedTasks = 0\<rparr>"

definition worker2 :: user where
  "worker2 = \<lparr>user_id = 2, user_role = RoleWorker, user_isActive = True,
     workerDetails_completedTasks = 0\<rparr>"

definition worker3 :: user where
  "worker3 = \<lparr>user_id = 3, user_role = RoleWorker, user_isActive = True,
     workerDetails_completedTasks = 0\<rparr>"

definition store0 :: db where
  "store0 = \<lparr>inventories = [10 \<mapsto> fertilizer], inventoryTransactions = [],
     tasks = Map.empty, users = [admin1, worker2, worker3], clients = Map.empty,
     sites = Map.empty, outbox = []\<rparr>"

definition withdraw_req :: "number \<Rightarrow> withdraw_request" where
  "withdraw_req q = \<lparr>w_params_id = 10, w_quantity = q, w_taskId = None, w_notes = None,
     w_user = 2\<rparr>"

definition restock_req :: "number \<Rightarrow> restock_request" where
  "restock_req q = \<lparr>r_params_id = 10, r_quantity = q, r_notes = None, r_user = 1\<rparr>"

definition garden_client :: client where
  "garden_client = \<lparr>client_completedTasks = 0\<rparr>"

definition garden_site :: site where
  "garden_site = \<lparr>site_completedTasks = 0, site_lastVisit = None\<rparr>"

definition mowing :: task where
  "mowing = \<lparr>task_client = 5, task_site = Some 6, task_worker = None,
     task_status = Pending, materials = [\<lparr>material_item = Some 10, material_quantity = 4\<rparr>],
     actualDuration = 0, cost_labor = 0, cost_materials = 0, cost_total = 0,
     startedAt = None, completedAt = None, startLocation = None, endLocation = None\<rparr>"

definition store1 :: db where
  "store1 = store0\<lparr>tasks := [20 \<mapsto> mowing\<lparr>task_worker := Some 2, task_status := InProgress,
                                    startedAt := Some 1000\<rparr>,
                              21 \<mapsto> mowing,
                              22 \<mapsto> mowing\<lparr>materials := [\<lparr>material_item = Some 10, material_quantity = 40\<rparr>]\<rparr>,
                              23 \<mapsto> mowing\<lparr>actualDuration := 5\<rparr>],
                    clients := [5 \<mapsto> garden_client], sites := [6 \<mapsto> garden_site]\<rparr>"

definition complete_req :: complete_request where
  "complete_req = \<lparr>c_params_id = 20, c_latitude = None, c_longitude = None, c_user = worker2\<rparr>"



definition complete_body :: update_body where
  "complete_body = \<lparr>body_worker = None, body_status = Some Completed, body_completedAt = None\<rparr>"


definition ops1 :: "ledger_op list" where
  "ops1 = [WithdrawOp (withdraw_req 25) 7, WithdrawOp (withdraw_req 1) 100,
           WithdrawOp (withdraw_req 1) 86400008]"

section \<open>Properties of the stock ledger\<close>

text \<open>
  C1. A withdrawal whose quantity is strictly greater than the item's
  \<open>quantity.current\<close> is answered with 400 "Insufficient stock"; the store is returned as
  it was, so \<open>quantity.current\<close> is unchanged and no InventoryTransaction is created.
\<close>

theorem withdraw_insufficient_stock:
  assumes "inventories s (w_params_id req) = Some item"
    and "quantity_current item < w_quantity req"
  shows "withdrawInventory req now s = (Inl (HttpError 400 ''Insufficient stock''), s)"
  using assms by (simp add: withdrawInventory_def)

theorem withdraw_insufficient_stock_witness:
  "withdrawInventory (withdraw_req 31) 0 store0 = (Inl (HttpError 400 ''Insufficient stock''), store0)"
  using withdraw_insufficient_stock [of store0 "withdraw_req 31" fertilizer 0]
  by (simp add: store0_def withdraw_req_def fertilizer_def)

subsection \<open>What each step of a handler does to the store\<close>

lemma save_inventory_cases:
  "save_inventory i item s = (r, s1) \<Longrightarrow>
     (quantity_current item < 0 \<and> r = Inl (ValidationError ''quantity.current'') \<and> s1 = s) \<or>
     (0 \<le> quantity_current item \<and> r = Inr item \<and> s1 = s\<lparr>inventories := (inventories s)(i \<mapsto> item)\<rparr>)"
  by (auto simp: save_inventory_def split: if_splits)

lemma deduct_Inr:
  "deduct a i item s = (Inr item1, s1) \<Longrightarrow>
     \<not> quantity_current item < a \<and>
     item1 = item\<lparr>quantity_current := quantity_current item - a\<rparr> \<and>
     0 \<le> quantity_current item1 \<and>
     s1 = s\<lparr>inventories := (inventories s)(i \<mapsto> item1)\<rparr>"
  by (auto simp: deduct_def save_inventory_def split: if_splits)

lemma deduct_Inl: "deduct a i item s = (Inl e, s1) \<Longrightarrow> s1 = s"
  by (auto simp: deduct_def save_inventory_def split: if_splits)


lemma restock_Inl: "restock a now i item s = (Inl e, s1) \<Longrightarrow> s1 = s"
  by (auto simp: restock_def save_inventory_def split: if_splits)


lemma create_Inl: "InventoryTransaction_create tx s = (Inl e, s1) \<Longrightarrow> s1 = s"
  by (auto simp: InventoryTransaction_create_def split: if_splits)








lemmas store_defs = store0_def withdraw_req_def restock_req_def fertilizer_def admin1_def
  worker2_def worker3_def

lemmas ledger_defs = withdrawInventory_def restockInventory_def deduct_def restock_def
  save_inventory_def InventoryTransaction_create_def notes_valid_def lowStockCheck_def
  findOne_admin_def notifyLowStock_def DAY_MS_def



text \<open>
  The write of the balance and the append of the transaction are two steps: when the
  notes exceed the schema's 500 characters, the request is answered with 500 after the
  balance was written, and no transaction is logged.
\<close>

lemma withdraw_notes_rejected:
  assumes "inventories s (w_params_id req) = Some item"
    and "\<not> quantity_current item < w_quantity req"
    and "0 \<le> quantity_current item - w_quantity req"
    and "\<not> notes_valid (w_notes req)"
  shows "withdrawInventory req now s =
    (Inl (HttpError 500 ''Failed to withdraw inventory''),
     s\<lparr>inventories := (inventories s)(w_params_id req \<mapsto>
          item\<lparr>quantity_current := quantity_current item - w_quantity req\<rparr>)\<rparr>)"
  using assms
  by (simp add: withdrawInventory_def deduct_def save_inventory_def
      InventoryTransaction_create_def)






subsection \<open>Balance over sequences of requests\<close>








subsection \<open>Throttling of the low-stock alert\<close>

lemma spaced_append:
  "spaced (ts @ [t]) = (spaced ts \<and> (ts = [] \<or> t - last ts > DAY_MS))"
  by (induction ts rule: spaced.induct) auto

lemma spaced_later:
  "spaced (t # ts) \<Longrightarrow> u \<in> set ts \<Longrightarrow> t + DAY_MS < u"
proof (induction ts arbitrary: t)
  case Nil
  then show ?case by simp
next
  case (Cons v vs)
  have pos: "0 < DAY_MS" by (simp add: DAY_MS_def)
  from Cons.prems(1) have gap: "t + DAY_MS < v" and rest: "spaced (v # vs)" by auto
  show ?case
  proof (cases "u = v")
    case True
    with gap show ?thesis by simp
  next
    case False
    with Cons.prems(2) have "u \<in> set vs" by simp
    from Cons.IH [OF rest this] gap pos show ?thesis by simp
  qed
qed

lemma spaced_tail: "spaced (t # ts) \<Longrightarrow> spaced ts"
  by (cases ts) auto

lemma spaced_window:
  "spaced ts \<Longrightarrow> length (filter (\<lambda>t. a \<le> t \<and> t \<le> a + DAY_MS) ts) \<le> 1"
proof (induction ts)
  case Nil
  then show ?case by simp
next
  case (Cons t ts)
  note tl = spaced_tail [OF Cons.prems]
  show ?case
  proof (cases "a \<le> t \<and> t \<le> a + DAY_MS")
    case True
    have "filter (\<lambda>t. a \<le> t \<and> t \<le> a + DAY_MS) ts = []"
    proof (rule filter_False, rule ballI)
      fix u assume "u \<in> set ts"
      from spaced_later [OF Cons.prems this] True
      show "\<not> (a \<le> u \<and> u \<le> a + DAY_MS)" by simp
    qed
    with True show ?thesis by simp
  next
    case False
    with Cons.IH [OF tl] show ?thesis by auto
  qed
qed

lemma alert_in_window_eq:
  "alert_in_window i a e = (is_alert_for i e \<and> a \<le> alert_time e \<and> alert_time e \<le> a + DAY_MS)"
  by (cases e) auto

lemma alerts_in_window_length:
  "length (alerts_in_window i a s) =
   length (filter (\<lambda>t. a \<le> t \<and> t \<le> a + DAY_MS) (alert_times i (outbox s)))"
proof -
  have "filter (alert_in_window i a) (outbox s) =
        filter (\<lambda>e. a \<le> alert_time e \<and> alert_time e \<le> a + DAY_MS) (filter (is_alert_for i) (outbox s))"
    by (simp add: alert_in_window_eq [abs_def] conj_commute)
  then show ?thesis
    by (simp add: alerts_in_window_def alert_times_def filter_map comp_def)
qed

lemma lowStockCheck_alerts:
  assumes "lowStockCheck j item now s = (r, s3)"
    and "inventories s j = Some item"
    and "0 \<le> quantity_current item"
  shows "(outbox s3 = outbox s \<and> (\<forall>i. last_alert i s3 = last_alert i s)) \<or>
         (\<exists>u. outbox s3 = outbox s @ [LowStockAlert u j now] \<and>
              (\<exists>item3. inventories s3 j = Some item3 \<and> lowStockAlert_lastAlertSent item3 = Some now) \<and>
              (\<forall>i. i \<noteq> j \<longrightarrow> last_alert i s3 = last_alert i s) \<and>
              (case last_alert j s of None \<Rightarrow> True | Some l \<Rightarrow> now - l > DAY_MS))"
  using assms
  by (auto simp: lowStockCheck_def save_inventory_def notifyLowStock_def last_alert_def
      split: if_splits option.splits)

lemma deduct_alerts:
  assumes "deduct q j item s = (r, s1)" and "inventories s j = Some item"
  shows "outbox s1 = outbox s \<and> (\<forall>i. last_alert i s1 = last_alert i s)"
  using assms
  by (auto simp: deduct_def save_inventory_def last_alert_def split: if_splits)

lemma restock_alerts:
  assumes "restock q now j item s = (r, s1)" and "inventories s j = Some item"
  shows "outbox s1 = outbox s \<and> (\<forall>i. last_alert i s1 = last_alert i s)"
  using assms
  by (auto simp: restock_def save_inventory_def last_alert_def split: if_splits)

lemma create_alerts:
  assumes "InventoryTransaction_create tx s = (r, s1)"
  shows "outbox s1 = outbox s \<and> inventories s1 = inventories s"
  using assms
  by (auto simp: InventoryTransaction_create_def split: if_splits)

lemma last_alert_cong: "inventories s1 = inventories s \<Longrightarrow> last_alert i s1 = last_alert i s"
  by (simp add: last_alert_def)

lemma withdraw_alerts:
  assumes w: "withdrawInventory req now s = (r, s')"
  shows "(outbox s' = outbox s \<and> (\<forall>i. last_alert i s' = last_alert i s)) \<or>
         (\<exists>u. outbox s' = outbox s @ [LowStockAlert u (w_params_id req) now] \<and>
              (\<exists>item'. inventories s' (w_params_id req) = Some item' \<and>
                  lowStockAlert_lastAlertSent item' = Some now) \<and>
              (\<forall>i. i \<noteq> w_params_id req \<longrightarrow> last_alert i s' = last_alert i s) \<and>
              (case last_alert (w_params_id req) s of None \<Rightarrow> True | Some l \<Rightarrow> now - l > DAY_MS))"
proof (cases "inventories s (w_params_id req)")
  case None
  with w show ?thesis by (simp add: withdrawInventory_def)
next
  case (Some item)
  show ?thesis
  proof (cases "quantity_current item < w_quantity req")
    case True
    with w Some show ?thesis by (simp add: withdrawInventory_def)
  next
    case False
    obtain r1 s1 where d: "deduct (w_quantity req) (w_params_id req) item s = (r1, s1)"
      by (cases "deduct (w_quantity req) (w_params_id req) item s") 
    note da = deduct_alerts [OF d Some]
    show ?thesis
    proof (cases r1)
      case (Inl e)
      with w Some False d da show ?thesis by (simp add: withdrawInventory_def)
    next
      case (Inr item1)
      note d1 = deduct_Inr [OF d [unfolded Inr]]
      let ?tx = "\<lparr>tx_inventory = w_params_id req, tx_task = w_taskId req,
                          tx_worker = w_user req, tx_type = Withdrawal,
                          tx_quantity = w_quantity req, tx_unit = inv_unit item1,
                          previousQuantity = quantity_current item,
                          newQuantity = quantity_current item1,
                          tx_notes = w_notes req, confirmedBy = w_user req,
                          confirmedAt = now\<rparr>"
      obtain r2 s2 where c: "InventoryTransaction_create ?tx s1 = (r2, s2)"
        by (cases "InventoryTransaction_create ?tx s1")
      note ca = create_alerts [OF c]
      have la2: "\<forall>i. last_alert i s2 = last_alert i s"
        using ca da by (simp add: last_alert_def)
      show ?thesis
      proof (cases r2)
        case (Inl e)
        with w Some False d Inr c ca da la2 show ?thesis
          by (simp add: withdrawInventory_def)
      next
        case u: (Inr u)
        obtain r3 s3 where l: "lowStockCheck (w_params_id req) item1 now s2 = (r3, s3)"
          by (cases "lowStockCheck (w_params_id req) item1 now s2")
        have i2: "inventories s2 (w_params_id req) = Some item1" using ca d1 by simp
        have n1: "0 \<le> quantity_current item1" using d1 by simp
        note la = lowStockCheck_alerts [OF l i2 n1]
        have s': "s' = s3" using w Some False d Inr c u l
          by (auto simp: withdrawInventory_def split: sum.splits)
        show ?thesis using la la2 ca da unfolding s' by auto
      qed
    qed
  qed
qed

lemma restockInventory_alerts:
  assumes w: "restockInventory req now s = (r, s')"
  shows "outbox s' = outbox s \<and> (\<forall>i. last_alert i s' = last_alert i s)"
proof (cases "inventories s (r_params_id req)")
  case None
  with w show ?thesis by (simp add: restockInventory_def)
next
  case (Some item)
  obtain r1 s1 where d: "restock (r_quantity req) now (r_params_id req) item s = (r1, s1)"
    by (cases "restock (r_quantity req) now (r_params_id req) item s")
  note da = restock_alerts [OF d Some]
  show ?thesis
  proof (cases r1)
    case (Inl e)
    with w Some d da show ?thesis by (simp add: restockInventory_def)
  next
    case (Inr item1)
    with w Some d da show ?thesis
      by (auto simp: restockInventory_def InventoryTransaction_create_def last_alert_def
          split: if_splits)
  qed
qed

lemma ledger_step_inv:
  assumes "alert_inv i s"
  shows "alert_inv i (snd (ledger_step x s))"
proof (cases x)
  case (WithdrawOp req now)
  obtain r s' where w: "withdrawInventory req now s = (r, s')"
    by (cases "withdrawInventory req now s")
  have "alert_inv i s'"
  proof -
    from withdraw_alerts [OF w] consider
      (same) "outbox s' = outbox s" "\<forall>i. last_alert i s' = last_alert i s"
    | (alert) u item' where "outbox s' = outbox s @ [LowStockAlert u (w_params_id req) now]"
        "inventories s' (w_params_id req) = Some item'"
        "lowStockAlert_lastAlertSent item' = Some now"
        "\<forall>i. i \<noteq> w_params_id req \<longrightarrow> last_alert i s' = last_alert i s"
        "case last_alert (w_params_id req) s of None \<Rightarrow> True | Some l \<Rightarrow> now - l > DAY_MS"
      by blast
    then show ?thesis
    proof cases
      case same
      with assms show ?thesis by (simp add: alert_inv_def)
    next
      case alert
      show ?thesis
      proof (cases "i = w_params_id req")
        case False
        with alert(1) have "alert_times i (outbox s') = alert_times i (outbox s)"
          by (simp add: alert_times_def)
        with alert(4) False assms show ?thesis by (simp add: alert_inv_def)
      next
        case True
        with alert(1) have t: "alert_times i (outbox s') = alert_times i (outbox s) @ [now]"
          by (simp add: alert_times_def)
        from alert(2,3) True have l: "last_alert i s' = Some now"
          by (simp add: last_alert_def)
        from assms alert(5) True
        have "alert_times i (outbox s) = [] \<or> now - last (alert_times i (outbox s)) > DAY_MS"
          by (auto simp: alert_inv_def)
        with assms t l show ?thesis by (simp add: alert_inv_def spaced_append)
      qed
    qed
  qed
  with w WithdrawOp show ?thesis by simp
next
  case (RestockOp req now)
  obtain r s' where w: "restockInventory req now s = (r, s')"
    by (cases "restockInventory req now s")
  from restockInventory_alerts [OF w] assms have "alert_inv i s'"
    by (simp add: alert_inv_def)
  with w RestockOp show ?thesis by simp
qed

lemma run_all_inv: "alert_inv i s \<Longrightarrow> alert_inv i (run_all xs s)"
  by (induction xs arbitrary: s) (simp_all add: ledger_step_inv)

lemma alert_times_Nil: "filter (is_alert_for i) es = [] \<Longrightarrow> alert_times i es = []"
  by (simp add: alert_times_def)

text \<open>
  C6. Requests are handled one after the other. From a store with no low-stock alert
  for item \<open>i\<close> in the outbox, after any sequence of withdraw and restock requests
  (whatever their answers and clock readings) every window of 24 hours \<open>[a, a + 24h]\<close>
  holds at most one low-stock alert for the item, however many withdrawals left the
  balance at or below the minimum. And a \<open>withdrawInventory\<close> that sends an alert sends
  one, stamped with the request's clock reading, and stores that reading as the item's
  \<open>lowStockAlert.lastAlertSent\<close>.
\<close>

theorem low_stock_alert_throttle:
  "(filter (is_alert_for i) (outbox s0) = [] \<longrightarrow>
      length (alerts_in_window i a (run_all ops s0)) \<le> 1) \<and>
   (withdrawInventory req now s = (r, s') \<longrightarrow>
      outbox s' = outbox s \<or>
      (\<exists>u item'. outbox s' = outbox s @ [LowStockAlert u (w_params_id req) now] \<and>
         inventories s' (w_params_id req) = Some item' \<and>
         lowStockAlert_lastAlertSent item' = Some now))"
proof (intro conjI impI)
  assume "filter (is_alert_for i) (outbox s0) = []"
  then have "alert_inv i s0" by (simp add: alert_inv_def alert_times_Nil)
  then have "alert_inv i (run_all ops s0)" by (rule run_all_inv)
  then have "spaced (alert_times i (outbox (run_all ops s0)))" by (simp add: alert_inv_def)
  from spaced_window [OF this, of a]
  show "length (alerts_in_window i a (run_all ops s0)) \<le> 1"
    by (simp add: alerts_in_window_length)
next
  assume "withdrawInventory req now s = (r, s')"
  from withdraw_alerts [OF this]
  show "outbox s' = outbox s \<or>
      (\<exists>u item'. outbox s' = outbox s @ [LowStockAlert u (w_params_id req) now] \<and>
         inventories s' (w_params_id req) = Some item' \<and>
         lowStockAlert_lastAlertSent item' = Some now)"
    by blast
qed

theorem low_stock_alert_throttle_witness:
  "outbox (run_all ops1 store0) = [LowStockAlert 1 10 7, LowStockAlert 1 10 86400008] \<and>
   length (alerts_in_window 10 0 (run_all ops1 store0)) \<le> 1 \<and>
   length (alerts_in_window 10 8 (run_all ops1 store0)) \<le> 1 \<and>
   (\<exists>item'. inventories (snd (withdrawInventory (withdraw_req 25) 7 store0)) 10 = Some item' \<and>
      lowStockAlert_lastAlertSent item' = Some 7)"
proof -
  have e: "filter (is_alert_for 10) (outbox store0) = []" by (simp add: store0_def)
  have o: "outbox (run_all ops1 store0) = [LowStockAlert 1 10 7, LowStockAlert 1 10 86400008]"
    by (simp add: ops1_def store_defs ledger_defs)
  have w: "withdrawInventory (withdraw_req 25) 7 store0 =
      (fst (withdrawInventory (withdraw_req 25) 7 store0),
       snd (withdrawInventory (withdraw_req 25) 7 store0))" by simp
  have n: "outbox (snd (withdrawInventory (withdraw_req 25) 7 store0)) \<noteq> outbox store0"
    by (simp add: store_defs ledger_defs)
  from low_stock_alert_throttle [THEN conjunct1, of 10 store0 0 ops1] e
  have a: "length (alerts_in_window 10 0 (run_all ops1 store0)) \<le> 1" by simp
  from low_stock_alert_throttle [THEN conjunct1, of 10 store0 8 ops1] e
  have b: "length (alerts_in_window 10 8 (run_all ops1 store0)) \<le> 1" by simp
  from low_stock_alert_throttle [THEN conjunct2, rule_format, OF w] n
  have c: "\<exists>item'. inventories (snd (withdrawInventory (withdraw_req 25) 7 store0)) 10 = Some item' \<and>
      lowStockAlert_lastAlertSent item' = Some 7"
    by (auto simp: withdraw_req_def)
  from o a b c show ?thesis by blast
qed

section \<open>Properties of the task lifecycle\<close>







lemma store1_tasks_20:
  "tasks store1 20 = Some (mowing\<lparr>task_worker := Some 2, task_status := InProgress,
                                    startedAt := Some 1000\<rparr>)"
  by (simp add: store1_def)

text \<open>
  C4. The store \<open>store1\<close> holds task 20, in progress and assigned to worker 2, with its
  client 5 and site 6. \<open>completeTask\<close> by worker 2 sets the status and
  \<open>completedAt\<close>, and that is all: the three \<open>completedTasks\<close> counters and the site's
  \<open>lastVisit\<close> are as before and nothing is handed to the notification service.
\<close>

theorem completeTask_leaves_counters:
  "(\<exists>t'. fst (completeTask complete_req 5001000 store1) = Inr t' \<and>
      task_status t' = Completed \<and> completedAt t' = Some 5001000) \<and>
   clients (snd (completeTask complete_req 5001000 store1)) 5 = Some \<lparr>client_completedTasks = 0\<rparr> \<and>
   findById_user 2 (snd (completeTask complete_req 5001000 store1)) =
     Some \<lparr>user_id = 2, user_role = RoleWorker, user_isActive = True,
           workerDetails_completedTasks = 0\<rparr> \<and>
   sites (snd (completeTask complete_req 5001000 store1)) 6 =
     Some \<lparr>site_completedTasks = 0, site_lastVisit = None\<rparr> \<and>
   outbox (snd (completeTask complete_req 5001000 store1)) = []"
  by (simp add: store1_tasks_20 completeTask_def complete_req_def worker2_def save_task_def
      findById_user_def)
     (simp add: store1_def store0_def garden_client_def garden_site_def worker2_def admin1_def
      pre_save_def)

text \<open>
  The sibling path: \<open>updateTask\<close> with status completed on the same store increments
  the three counters and sets \<open>lastVisit\<close>.
\<close>

lemma updateTask_increments_counters:
  "clients (snd (updateTask \<lparr>u_params_id = 20, u_body = complete_body, u_user = worker2\<rparr>
      5001000 store1)) 5 = Some \<lparr>client_completedTasks = 1\<rparr> \<and>
   findById_user 2 (snd (updateTask \<lparr>u_params_id = 20, u_body = complete_body, u_user = worker2\<rparr>
      5001000 store1)) =
     Some \<lparr>user_id = 2, user_role = RoleWorker, user_isActive = True,
           workerDetails_completedTasks = 1\<rparr> \<and>
   sites (snd (updateTask \<lparr>u_params_id = 20, u_body = complete_body, u_user = worker2\<rparr>
      5001000 store1)) 6 = Some \<lparr>site_completedTasks = 1, site_lastVisit = Some 5001000\<rparr>"
  by (simp add: store1_tasks_20 updateTask_def complete_body_def worker2_def assigning_def
      mark_completed_def mowing_def inc_client_completedTasks_def inc_worker_completedTasks_def
      inc_site_completedTasks_def findById_user_def)
     (simp add: store1_def store0_def garden_client_def garden_site_def worker2_def admin1_def)

text \<open>
  \<open>completeTask\<close> touches the task collection only, and \<open>assignTask\<close> the task
  collection and the outbox, whatever the request.
\<close>

lemma completeTask_frame:
  "clients (snd (completeTask req now s)) = clients s \<and>
   users (snd (completeTask req now s)) = users s \<and>
   sites (snd (completeTask req now s)) = sites s \<and>
   outbox (snd (completeTask req now s)) = outbox s"
  by (simp add: completeTask_def save_task_def split: option.splits)

lemma assignTask_frame:
  "inventories (snd (assignTask req now s)) = inventories s \<and>
   inventoryTransactions (snd (assignTask req now s)) = inventoryTransactions s"
  by (simp add: assignTask_def save_task_def notifyTaskAssignment_def split: option.splits)












end
